theory Spec2Isabelle
  imports Main
begin

section \<open>The user model of codgic-api (src/models/user.ts)\<close>

subsection \<open>Values, errors and entities\<close>

text \<open>
  The payload of \<open>postUser\<close> is typed \<open>any\<close> and the lookup key of \<open>getUserInfo\<close> is
  \<open>number | string\<close>; the code tests them with \<open>!x\<close>, \<open>x && y\<close> and \<open>x === undefined\<close>.
  A JavaScript value is therefore kept as a tagged value. Numbers are the integers
  (NaN and fractions are left out), a property that is absent reads as \<open>Undefined\<close>.
\<close>

datatype jsval = Undefined | Null | JBool bool | JNum int | JStr string

fun truthy :: "jsval \<Rightarrow> bool" where
  "truthy Undefined = False"
| "truthy Null = False"
| "truthy (JBool b) = b"
| "truthy (JNum n) = (n \<noteq> 0)"
| "truthy (JStr s) = (s \<noteq> [])"

text \<open>\<open>createError(status, message)\<close> of http-errors.\<close>

datatype http_error = HttpError nat string

abbreviation InvalidParameterError :: http_error where
  "InvalidParameterError \<equiv> HttpError 500 ''Invalid parameters.''"

abbreviation StorageError :: http_error where
  "StorageError \<equiv> HttpError 500 ''Database operation failed.''"

abbreviation IrrecoverableStorageError :: http_error where
  "IrrecoverableStorageError \<equiv> HttpError 500 ''Database operation failed. Reverting failed as well.''"

abbreviation NotFoundError :: http_error where
  "NotFoundError \<equiv> HttpError 404 ''No matching result.''"

abbreviation ConflictError :: http_error where
  "ConflictError \<equiv> HttpError 400 ''Username or email taken.''"

abbreviation UserDoesNotExist :: http_error where
  "UserDoesNotExist \<equiv> HttpError 400 ''User does not exist.''"

text \<open>
  The entity classes \<open>User\<close> and \<open>UserCredential\<close> are imported from \<open>./../entities\<close>;
  the records hold the columns that user.ts reads and writes.
\<close>

record user =
  uid :: jsval
  email :: jsval
  username :: jsval
  nickname :: jsval
  sex :: jsval
  motto :: jsval
  description :: jsval
  privilege :: jsval
  createdAt :: jsval

record credential =
  cid :: jsval
  password :: jsval
  c_user :: jsval

text \<open>
  Modelled from the spec: the constructors of the entity classes \<open>User\<close> and
  \<open>UserCredential\<close> (src/entities, not part of the sources at hand). A fresh entity
  has no column set: its identifier is generated by the first save and \<open>createdAt\<close> is
  "set once at creation".
\<close>

definition new_User :: user where
  "new_User = \<lparr>uid = Undefined, email = Undefined, username = Undefined, nickname = Undefined,
     sex = Undefined, motto = Undefined, description = Undefined, privilege = Undefined,
     createdAt = Undefined\<rparr>"

definition new_UserCredential :: credential where
  "new_UserCredential = \<lparr>cid = Undefined, password = Undefined, c_user = Undefined\<rparr>"

subsection \<open>The storage collaborator\<close>

text \<open>
  \<open>getRepository(User)\<close> and \<open>getRepository(UserCredential)\<close> are the two tables. Every
  call on a repository returns a promise: it either resolves, having done its work, or
  rejects with a driver error and leaves the tables as they were (the storage layer
  runs each write on one row as one transaction). Which of the two happens is not
  decided by user.ts, so each function below takes the outcome of each repository call
  it makes; a rejection carries the \<open>errno\<close> of the driver error.
\<close>

datatype db_result = Resolves | Rejects jsval

text \<open>
  A condition \<open>column = key\<close> is decided by the database, not by user.ts. A column that
  holds no value equals nothing; a column that holds the very value of the key equals
  it; beyond that the database converts between types (the string \<open>'1'\<close> for the number
  1) and follows the collation of the column (\<open>'ZK'\<close> for \<open>'zk'\<close>). Which further pairs
  of a stored value and a key it identifies on a column is the database's own:
  \<open>converts\<close>.
\<close>

record db =
  users :: "user list"
  credentials :: "credential list"
  next_uid :: int
  next_cid :: int
  converts :: "string \<Rightarrow> jsval \<Rightarrow> jsval \<Rightarrow> bool"

definition db_equal :: "db \<Rightarrow> string \<Rightarrow> jsval \<Rightarrow> jsval \<Rightarrow> bool" where
  "db_equal d col stored key \<longleftrightarrow>
     stored \<noteq> Undefined \<and> stored \<noteq> Null \<and> (stored = key \<or> converts d col stored key)"

text \<open>
  \<open>findOne({ where: { [by]: data } })\<close>: the first row whose column \<open>by\<close> the database
  finds equal to \<open>data\<close>.
\<close>

definition column :: "string \<Rightarrow> user \<Rightarrow> jsval" where
  "column by u =
     (if by = ''id'' then uid u
      else if by = ''username'' then username u
      else if by = ''email'' then email u
      else Undefined)"

definition findOne_user :: "db \<Rightarrow> string \<Rightarrow> jsval \<Rightarrow> user option" where
  "findOne_user d by data = find (\<lambda>u. db_equal d by (column by u) data) (users d)"

text \<open>
  \<open>findOne\<close> on the credential table with \<open>innerJoinAndSelect\<close> of the owning user and
  \<open>where: { user: id }\<close>: the first pair of the inner join whose credential belongs to
  the user \<open>id\<close>.
\<close>

definition joined :: "db \<Rightarrow> (credential \<times> user) list" where
  "joined d =
     concat (map (\<lambda>c. map (Pair c) (filter (\<lambda>u. db_equal d ''id'' (uid u) (c_user c)) (users d)))
       (credentials d))"

definition findOne_credential :: "db \<Rightarrow> jsval \<Rightarrow> (credential \<times> user) option" where
  "findOne_credential d i = find (\<lambda>cu. db_equal d ''user'' (c_user (fst cu)) i) (joined d)"

text \<open>
  Modelled from the spec: the column declarations of src/entities/user and
  src/entities/user_credential, which are not part of the sources at hand. The
  identifier of a row is generated by the table (a counter that is never handed out
  twice), and \<open>createdAt\<close> is a "timestamp set once at creation", \<open>now\<close>.

  \<open>save(entity)\<close> itself: an entity whose key the database finds stored already
  overwrites its row; any other entity is inserted, a missing key being generated
  first. The saved entity is handed back with its key.
\<close>

definition db_save_user :: "jsval \<Rightarrow> db \<Rightarrow> user \<Rightarrow> user \<times> db" where
  "db_save_user now d u =
     (if uid u \<noteq> Undefined \<and> (\<exists>r \<in> set (users d). db_equal d ''id'' (uid r) (uid u))
      then (u, d\<lparr>users := map (\<lambda>r. if db_equal d ''id'' (uid r) (uid u) then u else r) (users d)\<rparr>)
      else
        let u' = (if uid u = Undefined then u\<lparr>uid := JNum (next_uid d)\<rparr> else u)\<lparr>createdAt := now\<rparr>
        in (u', d\<lparr>users := users d @ [u'], next_uid := next_uid d + 1\<rparr>))"

definition db_save_credential :: "db \<Rightarrow> credential \<Rightarrow> credential \<times> db" where
  "db_save_credential d c =
     (if cid c \<noteq> Undefined \<and> (\<exists>r \<in> set (credentials d). db_equal d ''id'' (cid r) (cid c))
      then (c, d\<lparr>credentials :=
                   map (\<lambda>r. if db_equal d ''id'' (cid r) (cid c) then c else r) (credentials d)\<rparr>)
      else
        let c' = (if cid c = Undefined then c\<lparr>cid := JNum (next_cid d)\<rparr> else c)
        in (c', d\<lparr>credentials := credentials d @ [c'], next_cid := next_cid d + 1\<rparr>))"

text \<open>
  \<open>remove(user)\<close>: deletes the rows of the user table whose key the database finds
  equal to the key of \<open>user\<close>.
  What the schema does to the credential of a removed user is not visible in user.ts
  and is left out.
\<close>

definition db_remove_user :: "db \<Rightarrow> user \<Rightarrow> db" where
  "db_remove_user d u = d\<lparr>users := filter (\<lambda>r. \<not> db_equal d ''id'' (uid r) (uid u)) (users d)\<rparr>"

subsection \<open>getUserInfo\<close>

text \<open>
  \<open>getUserInfo(data, by = 'id')\<close>. An omitted \<open>by\<close> is \<open>None\<close>. The result of a lookup
  that finds nothing is the \<open>undefined\<close> that \<open>findOne\<close> resolves with, here \<open>Inr None\<close>.
\<close>

definition getUserInfo :: "db_result \<Rightarrow> db \<Rightarrow> jsval \<Rightarrow> string option \<Rightarrow> http_error + user option" where
  "getUserInfo findOne_result d data by_arg =
     (let by = (case by_arg of None \<Rightarrow> ''id'' | Some b \<Rightarrow> b) in
      if \<not> truthy data \<or> (by \<noteq> ''id'' \<and> by \<noteq> ''username'' \<and> by \<noteq> ''email'')
      then Inl InvalidParameterError
      else case findOne_result of
             Rejects err \<Rightarrow> Inl StorageError
           | Resolves \<Rightarrow> Inr (findOne_user d by data))"

subsection \<open>getUserList\<close>

text \<open>
  The configuration values that user.ts reads: \<open>config.oj.default.page.user\<close>,
  \<open>config.oj.policy.signup.need_confirmation\<close>, and the constant
  \<open>UserPrivilege.isEnabled\<close> of src/init/privilege.
\<close>

record config =
  default_page_user :: jsval
  need_confirmation :: jsval
  isEnabled :: int

datatype order_column = ById | ByUsername | ByCreatedAt

datatype direction = ASC | DESC

text \<open>The \<open>select([...])\<close> of the list queries: the other columns stay unset.\<close>

definition selected :: "user \<Rightarrow> user" where
  "selected u = new_User\<lparr>uid := uid u, email := email u, username := username u,
     nickname := nickname u, sex := sex u, privilege := privilege u\<rparr>"

text \<open>
  The default parameters of the list functions: \<open>orderBy = 'id'\<close>, \<open>order = 'ASC'\<close>,
  \<open>page = 1\<close>, \<open>num = config.oj.default.page.user || 20\<close>. An omitted argument is \<open>None\<close>.
\<close>

definition orderBy_value :: "order_column option \<Rightarrow> order_column" where
  "orderBy_value a = (case a of None \<Rightarrow> ById | Some c \<Rightarrow> c)"

definition order_value :: "direction option \<Rightarrow> direction" where
  "order_value a = (case a of None \<Rightarrow> ASC | Some r \<Rightarrow> r)"

definition page_value :: "int option \<Rightarrow> int" where
  "page_value a = (case a of None \<Rightarrow> 1 | Some p \<Rightarrow> p)"

definition num_value :: "config \<Rightarrow> int option \<Rightarrow> int" where
  "num_value cfg a =
     (case a of
        None \<Rightarrow> (case default_page_user cfg of JNum n \<Rightarrow> (if n \<noteq> 0 then n else 20) | _ \<Rightarrow> 20)
      | Some n \<Rightarrow> n)"

text \<open>
  \<open>getUserList(orderBy, order, page, num)\<close>, with \<open>page\<close> and \<open>num\<close> integers. The rows
  are ordered by the database (\<open>ORDER BY\<close>): \<open>ordered\<close> is that ordering of the table,
  and \<open>offset\<close> and \<open>limit\<close> cut the page out of it.
\<close>

definition getUserList ::
  "config \<Rightarrow> (order_column \<Rightarrow> direction \<Rightarrow> user list \<Rightarrow> user list) \<Rightarrow> db_result \<Rightarrow> db \<Rightarrow>
     order_column option \<Rightarrow> direction option \<Rightarrow> int option \<Rightarrow> int option \<Rightarrow> http_error + user list" where
  "getUserList cfg ordered getMany_result d orderBy_arg order_arg page_arg num_arg =
     (let orderBy = orderBy_value orderBy_arg;
          order = order_value order_arg;
          page = page_value page_arg;
          num = num_value cfg num_arg in
      if page < 1 \<or> num < 1 then Inl InvalidParameterError
      else
        let firstResult = (page - 1) * num in
        case getMany_result of
          Rejects err \<Rightarrow> Inl StorageError
        | Resolves \<Rightarrow>
            let userList = map selected (take (nat num) (drop (nat firstResult) (ordered orderBy order (users d)))) in
            if length userList = 0 then Inl NotFoundError else Inr userList)"

subsection \<open>postUser\<close>

text \<open>The properties of \<open>data\<close> that \<open>postUser\<close> reads.\<close>

record payload =
  p_id :: jsval
  p_email :: jsval
  p_username :: jsval
  p_nickname :: jsval
  p_sex :: jsval
  p_motto :: jsval
  p_description :: jsval
  p_privilege :: jsval
  p_password :: jsval

text \<open>
  What \<open>postUser\<close> does not decide itself: the outcome of each of its four repository
  calls, the creation time the database stamps on a new row, and the method
  \<open>updatePassword\<close> of the credential entity (src/entities/user_credential, not part
  of the sources at hand). The method returns a promise; \<open>None\<close> is a rejection, which
  by the method's contract ("validates, then replaces the stored hash") leaves the
  credential as it was, \<open>Some c\<close> the credential with its new hash. \<open>postUser\<close> does not
  await that promise, so whether a new hash is in place by the time the credential is
  saved is up to the scheduler: \<open>password_settled\<close>.
\<close>

record env =
  findOne_credential_result :: db_result
  updatePassword :: "credential \<Rightarrow> jsval \<Rightarrow> credential option"
  password_settled :: bool
  save_user_result :: db_result
  save_credential_result :: db_result
  remove_user_result :: db_result
  now :: jsval

text \<open>
  Lines 135 to 171: an \<open>id\<close> in the payload loads the credential with its user and
  takes over the payload's privilege; no \<open>id\<close> makes a new pair with the initial
  privilege.
\<close>

definition load_or_new :: "config \<Rightarrow> env \<Rightarrow> db \<Rightarrow> payload \<Rightarrow> http_error + (user \<times> credential)" where
  "load_or_new cfg e d data =
     (if truthy (p_id data) then
        (case findOne_credential_result e of
           Rejects err \<Rightarrow> Inl StorageError
         | Resolves \<Rightarrow>
             (case findOne_credential d (p_id data) of
                None \<Rightarrow> Inl UserDoesNotExist
              | Some (userCredential, user) \<Rightarrow>
                  Inr (user\<lparr>privilege :=
                         (if p_privilege data = Undefined then privilege user else p_privilege data)\<rparr>,
                       userCredential)))
      else
        Inr (new_User\<lparr>privilege :=
               (if truthy (need_confirmation cfg) \<and> \<not> truthy (createdAt new_User)
                then JNum 0 else JNum (isEnabled cfg))\<rparr>,
             new_UserCredential))"

text \<open>
  Lines 173 to 181. The call is not awaited: the handler in \<open>.catch\<close> logs and throws
  \<open>createError(500, 'Update user password failed.')\<close> into a promise that nobody
  holds, and \<open>postUser\<close> goes on.
\<close>

definition update_password :: "env \<Rightarrow> payload \<Rightarrow> credential \<Rightarrow> credential" where
  "update_password e data userCredential =
     (if truthy (p_password data) then
        (case updatePassword e userCredential (p_password data) of
           None \<Rightarrow> userCredential
         | Some c \<Rightarrow> (if password_settled e then c else userCredential))
      else userCredential)"

text \<open>Lines 183 to 188.\<close>

definition patch :: "payload \<Rightarrow> user \<Rightarrow> user" where
  "patch data user = user
     \<lparr>email := (if p_email data = Undefined then email user else p_email data),
      username := (if p_username data = Undefined then username user else p_username data),
      nickname := (if p_nickname data = Undefined then nickname user else p_nickname data),
      sex := (if p_sex data = Undefined then sex user else p_sex data),
      motto := (if p_motto data = Undefined then motto user else p_motto data),
      description := (if p_description data = Undefined then description user else p_description data)\<rparr>"

text \<open>
  Lines 190 to 219: save the user, then the credential; when the credential cannot be
  saved, remove the user again.
\<close>

definition persist :: "env \<Rightarrow> db \<Rightarrow> user \<Rightarrow> credential \<Rightarrow> (http_error + user) \<times> db" where
  "persist e d user userCredential =
     (case save_user_result e of
        Rejects errno \<Rightarrow> (Inl (if errno = JNum 1062 then ConflictError else StorageError), d)
      | Resolves \<Rightarrow>
          let (user', d1) = db_save_user (now e) d user;
              userCredential' = userCredential\<lparr>c_user := uid user'\<rparr> in
          (case save_credential_result e of
             Resolves \<Rightarrow> (Inr user', snd (db_save_credential d1 userCredential'))
           | Rejects err \<Rightarrow>
               (case remove_user_result e of
                  Rejects err' \<Rightarrow> (Inl IrrecoverableStorageError, d1)
                | Resolves \<Rightarrow> (Inl StorageError, db_remove_user d1 user'))))"

text \<open>\<open>postUser(data)\<close>: the result, and the tables as the call leaves them.\<close>

definition postUser :: "config \<Rightarrow> env \<Rightarrow> db \<Rightarrow> payload \<Rightarrow> (http_error + user) \<times> db" where
  "postUser cfg e d data =
     (if \<not> (truthy (p_email data) \<and> truthy (p_username data)) then (Inl InvalidParameterError, d)
      else
        case load_or_new cfg e d data of
          Inl err \<Rightarrow> (Inl err, d)
        | Inr (user, userCredential) \<Rightarrow>
            persist e d (patch data user) (update_password e data userCredential))"

subsection \<open>Sample data\<close>

text \<open>Tables, payloads and storage outcomes on which the theorems below are run.\<close>

text \<open>
  A database that reads the string \<open>'1'\<close> as the key 1 and compares user names without
  regard to case, as far as the sample rows go.
\<close>

definition sample_converts :: "string \<Rightarrow> jsval \<Rightarrow> jsval \<Rightarrow> bool" where
  "sample_converts col stored key \<longleftrightarrow>
     (stored = JNum 1 \<and> key = JStr ''1'') \<or>
     (col = ''username'' \<and> stored = JStr ''zk'' \<and> key = JStr ''ZK'')"

definition db_empty :: db where
  "db_empty = \<lparr>users = [], credentials = [], next_uid = 1, next_cid = 1, converts = sample_converts\<rparr>"

definition user_zk :: user where
  "user_zk = \<lparr>uid = JNum 1, email = JStr ''zk@example.com'', username = JStr ''zk'',
     nickname = JStr ''Zed'', sex = JNum 1, motto = JStr ''hello'', description = Null,
     privilege = JNum 1, createdAt = JNum 1500000000\<rparr>"

definition cred_zk :: credential where
  "cred_zk = \<lparr>cid = JNum 1, password = JStr ''hash-of-CorrectPassword'', c_user = JNum 1\<rparr>"

definition db_zk :: db where
  "db_zk = \<lparr>users = [user_zk], credentials = [cred_zk], next_uid = 2, next_cid = 2,
     converts = sample_converts\<rparr>"

definition cfg_confirm :: config where
  "cfg_confirm = \<lparr>default_page_user = JNum 20, need_confirmation = JBool True, isEnabled = 1\<rparr>"

definition list_user :: "int \<Rightarrow> user" where
  "list_user i = new_User\<lparr>uid := JNum i, privilege := JNum 1\<rparr>"

definition db_21 :: db where
  "db_21 = \<lparr>users = map list_user [1, 2, 3, 4, 5, 6, 7, 8, 9, 10, 11, 12, 13, 14, 15, 16, 17, 18, 19, 20, 21],
     credentials = [], next_uid = 22, next_cid = 1, converts = sample_converts\<rparr>"

definition stored_order :: "order_column \<Rightarrow> direction \<Rightarrow> user list \<Rightarrow> user list" where
  "stored_order c r xs = (case r of ASC \<Rightarrow> xs | DESC \<Rightarrow> rev xs)"

definition env_ok :: env where
  "env_ok = \<lparr>findOne_credential_result = Resolves,
     updatePassword = (\<lambda>c p. Some (c\<lparr>password := JStr ''hash-of-new-password''\<rparr>)),
     password_settled = True,
     save_user_result = Resolves, save_credential_result = Resolves,
     remove_user_result = Resolves, now = JNum 1600000000\<rparr>"

definition payload_signup :: payload where
  "payload_signup = \<lparr>p_id = Undefined, p_email = JStr ''amy@example.com'', p_username = JStr ''amy'',
     p_nickname = Undefined, p_sex = Undefined, p_motto = Undefined, p_description = Undefined,
     p_privilege = JNum 3, p_password = JStr ''x''\<rparr>"

definition payload_edit :: payload where
  "payload_edit = \<lparr>p_id = JNum 1, p_email = JStr ''zk@example.com'', p_username = JStr ''zk'',
     p_nickname = Undefined, p_sex = Undefined, p_motto = JStr ''changed'', p_description = Null,
     p_privilege = JNum 2, p_password = Undefined\<rparr>"

definition payload_edit_without_email :: payload where
  "payload_edit_without_email = payload_edit\<lparr>p_email := Undefined\<rparr>"

definition payload_taken :: payload where
  "payload_taken = payload_signup\<lparr>p_email := JStr ''zk@example.com''\<rparr>"

definition env_taken :: env where
  "env_taken = env_ok\<lparr>save_user_result := Rejects (JNum 1062)\<rparr>"

definition env_credential_fails :: env where
  "env_credential_fails = env_ok\<lparr>save_credential_result := Rejects Undefined\<rparr>"

definition env_revert_fails :: env where
  "env_revert_fails = env_ok\<lparr>save_credential_result := Rejects Undefined,
     remove_user_result := Rejects Undefined\<rparr>"

definition env_password_rejected :: env where
  "env_password_rejected = env_ok\<lparr>updatePassword := (\<lambda>c p. None)\<rparr>"

definition user_amy :: user where
  "user_amy = \<lparr>uid = JNum 1, email = JStr ''amy@example.com'', username = JStr ''amy'',
     nickname = Undefined, sex = Undefined, motto = Undefined, description = Undefined,
     privilege = JNum 0, createdAt = JNum 1600000000\<rparr>"

definition user_zk_edited :: user where
  "user_zk_edited = user_zk\<lparr>motto := JStr ''changed'', description := Null, privilege := JNum 2\<rparr>"

section \<open>Properties\<close>

subsection \<open>Lookups\<close>

lemma find_Some_set: "find P xs = Some x \<Longrightarrow> x \<in> set xs \<and> P x"
  by (induction xs) (auto split: if_splits)

lemma findOne_user_Some:
  "findOne_user d by data = Some u \<Longrightarrow> u \<in> set (users d) \<and> db_equal d by (column by u) data"
  unfolding findOne_user_def by (rule find_Some_set)

lemma findOne_user_None:
  "findOne_user d by data = None \<longleftrightarrow> (\<forall>u \<in> set (users d). \<not> db_equal d by (column by u) data)"
  unfolding findOne_user_def by (auto simp: find_None_iff)

text \<open>
  Claim C10. \<open>getUserInfo\<close> rejects every falsy lookup key, the number 0 and the empty
  string among them, and every \<open>by\<close> other than id, username and email, with the
  invalid-parameter error. The error is raised before the repository is touched: it is
  the result whatever the table holds and whatever the repository call would have done.
  It is not the error of an empty result.
\<close>

theorem getUserInfo_rejects_falsy_key:
  "(\<not> truthy data \<longrightarrow> getUserInfo r d data by_arg = Inl InvalidParameterError) \<and>
   (b \<notin> {''id'', ''username'', ''email''} \<longrightarrow> getUserInfo r d data (Some b) = Inl InvalidParameterError) \<and>
   getUserInfo r d (JNum 0) by_arg = Inl InvalidParameterError \<and>
   getUserInfo r d (JStr []) by_arg = Inl InvalidParameterError \<and>
   InvalidParameterError \<noteq> NotFoundError"
  by (simp add: getUserInfo_def)

theorem getUserInfo_rejects_falsy_key_witness:
  "\<not> truthy (JNum 0) \<and> ''nickname'' \<notin> {''id'', ''username'', ''email''} \<and>
   getUserInfo Resolves db_zk (JNum 0) (Some ''id'') = Inl InvalidParameterError \<and>
   getUserInfo Resolves db_zk (JStr ''ZK'') (Some ''nickname'') = Inl InvalidParameterError"
  using getUserInfo_rejects_falsy_key [of "JNum 0" Resolves db_zk "Some ''id''" "''nickname''"]
    getUserInfo_rejects_falsy_key [of "JStr ''ZK''" Resolves db_zk "Some ''id''" "''nickname''"]
  by simp

text \<open>
  Claim C3, as stated: a lookup that matches no user fails with the not-found error and
  is never a success value. On an empty table the lookup of id 1 resolves, and what
  \<open>getUserInfo\<close> returns is the \<open>undefined\<close> of \<open>findOne\<close>: a success carrying no user.
\<close>

theorem getUserInfo_miss_counterexample:
  "getUserInfo Resolves db_empty (JNum 1) (Some ''id'') = Inr None"
  by (simp add: getUserInfo_def findOne_user_def db_empty_def)

text \<open>
  Claim C3, amended. For a truthy key and \<open>by\<close> among id, username and email: when the
  database finds the column \<open>by\<close> of a stored user equal to the key, \<open>getUserInfo\<close>
  returns such a stored user; when it finds none, \<open>getUserInfo\<close> returns \<open>undefined\<close> as a
  success value; the only failure is that of the repository call, reported as the
  storage error.
\<close>

theorem getUserInfo_lookup:
  assumes "truthy data" and "by \<in> {''id'', ''username'', ''email''}"
  shows "getUserInfo (Rejects err) d data (Some by) = Inl StorageError \<and>
         ((\<exists>u \<in> set (users d). db_equal d by (column by u) data) \<longrightarrow>
            (\<exists>u \<in> set (users d). db_equal d by (column by u) data \<and>
               getUserInfo Resolves d data (Some by) = Inr (Some u))) \<and>
         ((\<forall>u \<in> set (users d). \<not> db_equal d by (column by u) data) \<longrightarrow>
            getUserInfo Resolves d data (Some by) = Inr None)"
proof -
  have r: "getUserInfo Resolves d data (Some by) = Inr (findOne_user d by data)"
    using assms by (auto simp: getUserInfo_def)
  have "getUserInfo (Rejects err) d data (Some by) = Inl StorageError"
    using assms by (auto simp: getUserInfo_def)
  moreover have "\<exists>u \<in> set (users d). db_equal d by (column by u) data \<and>
      getUserInfo Resolves d data (Some by) = Inr (Some u)"
    if "\<exists>u \<in> set (users d). db_equal d by (column by u) data"
  proof (cases "findOne_user d by data")
    case None
    with that show ?thesis by (simp add: findOne_user_None)
  next
    case (Some u)
    with r findOne_user_Some [OF Some] show ?thesis by auto
  qed
  moreover have "getUserInfo Resolves d data (Some by) = Inr None"
    if "\<forall>u \<in> set (users d). \<not> db_equal d by (column by u) data"
    using that r by (simp add: findOne_user_None)
  ultimately show ?thesis by blast
qed

lemma db_equal_samples:
  "db_equal db_zk ''username'' (JStr ''zk'') (JStr ''zk'')"
  "db_equal db_zk ''username'' (JStr ''zk'') (JStr ''ZK'')"
  "db_equal db_zk ''id'' (JNum 1) (JStr ''1'')"
  "\<not> db_equal db_zk ''username'' (JStr ''zk'') (JStr ''amy'')"
  by (simp_all add: db_equal_def db_zk_def sample_converts_def)

theorem getUserInfo_lookup_witness:
  "truthy (JStr ''zk'') \<and> truthy (JStr ''ZK'') \<and> truthy (JStr ''1'') \<and> truthy (JStr ''amy'') \<and>
   ''username'' \<in> {''id'', ''username'', ''email''} \<and> ''id'' \<in> {''id'', ''username'', ''email''} \<and>
   users db_zk = [user_zk] \<and>
   db_equal db_zk ''username'' (column ''username'' user_zk) (JStr ''zk'') \<and>
   db_equal db_zk ''username'' (column ''username'' user_zk) (JStr ''ZK'') \<and>
   db_equal db_zk ''id'' (column ''id'' user_zk) (JStr ''1'') \<and>
   \<not> db_equal db_zk ''username'' (column ''username'' user_zk) (JStr ''amy'') \<and>
   getUserInfo Resolves db_zk (JStr ''zk'') (Some ''username'') = Inr (Some user_zk) \<and>
   getUserInfo Resolves db_zk (JStr ''ZK'') (Some ''username'') = Inr (Some user_zk) \<and>
   getUserInfo Resolves db_zk (JStr ''1'') (Some ''id'') = Inr (Some user_zk) \<and>
   getUserInfo Resolves db_zk (JStr ''amy'') (Some ''username'') = Inr None \<and>
   getUserInfo (Rejects Undefined) db_zk (JStr ''zk'') (Some ''username'') = Inl StorageError"
proof -
  have u: "users db_zk = [user_zk]"
    by (simp add: db_zk_def)
  have c: "column ''username'' user_zk = JStr ''zk''" "column ''id'' user_zk = JNum 1"
    by (simp_all add: column_def user_zk_def)
  from getUserInfo_lookup [of "JStr ''zk''" "''username''" Undefined db_zk]
    getUserInfo_lookup [of "JStr ''ZK''" "''username''" Undefined db_zk]
    getUserInfo_lookup [of "JStr ''1''" "''id''" Undefined db_zk]
    getUserInfo_lookup [of "JStr ''amy''" "''username''" Undefined db_zk]
  show ?thesis
    by (simp add: u c db_equal_samples)
qed

subsection \<open>Pagination\<close>

lemma getUserList_invalid:
  "page_value pa < 1 \<or> num_value cfg na < 1 \<Longrightarrow>
   getUserList cfg ordered r d oa da pa na = Inl InvalidParameterError"
  by (auto simp: getUserList_def Let_def)

lemma getUserList_resolves:
  "1 \<le> page_value pa \<Longrightarrow> 1 \<le> num_value cfg na \<Longrightarrow>
   getUserList cfg ordered Resolves d oa da pa na =
     (let page = map selected (take (nat (num_value cfg na))
            (drop (nat ((page_value pa - 1) * num_value cfg na))
               (ordered (orderBy_value oa) (order_value da) (users d))))
      in if page = [] then Inl NotFoundError else Inr page)"
  by (auto simp: getUserList_def Let_def)

lemma getUserList_empty_page:
  assumes "1 \<le> page_value pa" and "1 \<le> num_value cfg na"
    and "take (nat (num_value cfg na)) (drop (nat ((page_value pa - 1) * num_value cfg na))
      (ordered (orderBy_value oa) (order_value da) (users d))) = []"
  shows "getUserList cfg ordered Resolves d oa da pa na = Inl NotFoundError"
proof -
  have "\<not> (page_value pa < 1 \<or> num_value cfg na < 1)"
    using assms(1,2) by simp
  then show ?thesis
    unfolding getUserList_def Let_def assms(3) by simp
qed

text \<open>
  Claim C4. \<open>getUserList\<close> fails with the invalid-parameter error whenever the page or
  the page size is below 1, whatever the repository would do; with valid parameters and
  a query that resolves, it fails with the not-found error whenever the page cut out of
  the ordered rows is empty, which is the case in particular when the offset
  \<open>(page - 1) * num\<close> lies at or beyond the end of the rows. No empty list is returned.
\<close>

theorem getUserList_errors:
  "(page_value pa < 1 \<or> num_value cfg na < 1 \<longrightarrow>
      getUserList cfg ordered r d oa da pa na = Inl InvalidParameterError) \<and>
   (1 \<le> page_value pa \<and> 1 \<le> num_value cfg na \<and>
    take (nat (num_value cfg na)) (drop (nat ((page_value pa - 1) * num_value cfg na))
      (ordered (orderBy_value oa) (order_value da) (users d))) = [] \<longrightarrow>
      getUserList cfg ordered Resolves d oa da pa na = Inl NotFoundError) \<and>
   (1 \<le> page_value pa \<and> 1 \<le> num_value cfg na \<and>
    int (length (ordered (orderBy_value oa) (order_value da) (users d)))
      \<le> (page_value pa - 1) * num_value cfg na \<longrightarrow>
      getUserList cfg ordered Resolves d oa da pa na = Inl NotFoundError)"
proof (intro conjI impI)
  assume "page_value pa < 1 \<or> num_value cfg na < 1"
  then show "getUserList cfg ordered r d oa da pa na = Inl InvalidParameterError"
    by (rule getUserList_invalid)
next
  assume "1 \<le> page_value pa \<and> 1 \<le> num_value cfg na \<and>
    take (nat (num_value cfg na)) (drop (nat ((page_value pa - 1) * num_value cfg na))
      (ordered (orderBy_value oa) (order_value da) (users d))) = []"
  then show "getUserList cfg ordered Resolves d oa da pa na = Inl NotFoundError"
    by (intro getUserList_empty_page) blast+
next
  assume a: "1 \<le> page_value pa \<and> 1 \<le> num_value cfg na \<and>
    int (length (ordered (orderBy_value oa) (order_value da) (users d)))
      \<le> (page_value pa - 1) * num_value cfg na"
  then have "length (ordered (orderBy_value oa) (order_value da) (users d))
      \<le> nat ((page_value pa - 1) * num_value cfg na)"
    by linarith
  then have "drop (nat ((page_value pa - 1) * num_value cfg na))
      (ordered (orderBy_value oa) (order_value da) (users d)) = []"
    by (rule drop_all)
  then have "take (nat (num_value cfg na)) (drop (nat ((page_value pa - 1) * num_value cfg na))
      (ordered (orderBy_value oa) (order_value da) (users d))) = []"
    by (simp del: drop_eq_Nil)
  with a show "getUserList cfg ordered Resolves d oa da pa na = Inl NotFoundError"
    by (intro getUserList_empty_page) simp_all
qed

lemma selected_uid [simp]: "uid (selected u) = uid u"
  by (simp add: selected_def)

lemma distinct_selected: "distinct (map uid xs) \<Longrightarrow> distinct (map selected xs)"
proof -
  assume "distinct (map uid xs)"
  then have "distinct (map uid (map selected xs))" by (simp add: comp_def)
  then show ?thesis by (auto simp: distinct_map dest: inj_on_imageI2)
qed

lemma consecutive_slices_disjoint:
  assumes "distinct xs"
  shows "set (take n (drop k xs)) \<inter> set (take m (drop (k + n) xs)) = {}"
proof -
  have "distinct (drop k xs)"
    using assms by simp
  then have "set (take n (drop k xs)) \<inter> set (drop n (drop k xs)) = {}"
    by (rule set_take_disj_set_drop_if_distinct) simp
  moreover have "drop n (drop k xs) = drop (k + n) xs"
    by (simp add: add.commute)
  moreover have "set (take m (drop (k + n) xs)) \<subseteq> set (drop (k + n) xs)"
    by (rule set_take_subset)
  ultimately show ?thesis by auto
qed

lemma page_offset_next:
  "1 \<le> p \<Longrightarrow> 1 \<le> n \<Longrightarrow> nat ((p + 1 - 1) * n) = nat ((p - 1) * n) + nat n"
proof -
  assume p: "1 \<le> p" and n: "(1::int) \<le> n"
  have "(p + 1 - 1) * n = (p - 1) * n + n" by (simp add: algebra_simps)
  moreover have "0 \<le> (p - 1) * n" using p n by simp
  ultimately show ?thesis using n by (simp add: nat_add_distrib)
qed

text \<open>
  Claim C8. For every page \<open>p \<ge> 1\<close> and size \<open>n \<ge> 1\<close> whose offset \<open>(p - 1) * n\<close> lies
  inside the ordered rows, \<open>getUserList\<close> returns the selected columns of the rows at
  positions \<open>(p - 1) * n\<close> up to \<open>(p - 1) * n + n\<close> of the ordered sequence, in that order
  (fewer than \<open>n\<close> only where the sequence ends). When the rows carry distinct ids, the
  pages \<open>p\<close> and \<open>p + 1\<close> share no element. With at least 21 rows this covers pages 1
  and 2 of size 20.
\<close>

theorem getUserList_slices:
  assumes "1 \<le> p" and "1 \<le> n"
  shows "(nat ((p - 1) * n) < length (ordered (orderBy_value oa) (order_value da) (users d)) \<longrightarrow>
            getUserList cfg ordered Resolves d oa da (Some p) (Some n) =
              Inr (map selected (take (nat n) (drop (nat ((p - 1) * n))
                     (ordered (orderBy_value oa) (order_value da) (users d)))))) \<and>
         (distinct (map uid (ordered (orderBy_value oa) (order_value da) (users d))) \<longrightarrow>
            (\<forall>r1 r2. getUserList cfg ordered Resolves d oa da (Some p) (Some n) = Inr r1 \<and>
                     getUserList cfg ordered Resolves d oa da (Some (p + 1)) (Some n) = Inr r2 \<longrightarrow>
                     set r1 \<inter> set r2 = {}))"
proof (intro conjI impI allI)
  let ?seq = "ordered (orderBy_value oa) (order_value da) (users d)"
  have pv: "page_value (Some p) = p" "num_value cfg (Some n) = n" "page_value (Some (p + 1)) = p + 1"
    by (simp_all add: page_value_def num_value_def)
  {
    assume "nat ((p - 1) * n) < length ?seq"
    moreover have "0 < nat n" using assms by simp
    ultimately have "take (nat n) (drop (nat ((p - 1) * n)) ?seq) \<noteq> []" by simp
    then show "getUserList cfg ordered Resolves d oa da (Some p) (Some n) =
        Inr (map selected (take (nat n) (drop (nat ((p - 1) * n)) ?seq)))"
      using assms by (simp add: getUserList_resolves pv)
  }
  {
    fix r1 r2
    assume dist: "distinct (map uid ?seq)"
    assume both: "getUserList cfg ordered Resolves d oa da (Some p) (Some n) = Inr r1 \<and>
                  getUserList cfg ordered Resolves d oa da (Some (p + 1)) (Some n) = Inr r2"
    have r1: "r1 = take (nat n) (drop (nat ((p - 1) * n)) (map selected ?seq))"
      using both assms by (auto simp: getUserList_resolves pv Let_def take_map drop_map split: if_splits)
    have "1 \<le> p + 1" using assms by simp
    then have r2: "r2 = take (nat n) (drop (nat ((p - 1) * n) + nat n) (map selected ?seq))"
      using both assms page_offset_next [of p n]
      by (auto simp: getUserList_resolves pv Let_def take_map drop_map split: if_splits)
    show "set r1 \<inter> set r2 = {}"
      unfolding r1 r2 using distinct_selected [OF dist] by (rule consecutive_slices_disjoint)
  }
qed


subsection \<open>Pagination on 21 users\<close>

lemma users_db_21: "stored_order (orderBy_value None) (order_value None) (users db_21) = users db_21"
  by (simp add: stored_order_def orderBy_value_def order_value_def)

theorem getUserList_slices_witness:
  "(1::int) \<le> 1 \<and> (1::int) \<le> 20 \<and>
   nat ((1 - 1) * 20) < length (stored_order (orderBy_value None) (order_value None) (users db_21)) \<and>
   distinct (map uid (stored_order (orderBy_value None) (order_value None) (users db_21))) \<and>
   getUserList cfg_confirm stored_order Resolves db_21 None None (Some 1) (Some 20) =
     Inr (map selected (take 20 (users db_21))) \<and>
   getUserList cfg_confirm stored_order Resolves db_21 None None (Some 2) (Some 20) =
     Inr [selected (list_user 21)] \<and>
   set (map selected (take 20 (users db_21))) \<inter> set [selected (list_user 21)] = {}"
proof -
  have len: "length (users db_21) = 21"
    by (simp add: db_21_def)
  have dist: "distinct (map uid (users db_21))"
    by (simp add: db_21_def list_user_def)
  have p2: "getUserList cfg_confirm stored_order Resolves db_21 None None (Some 2) (Some 20) =
     Inr [selected (list_user 21)]"
    using getUserList_slices [of 2 20 stored_order None None db_21 cfg_confirm] len
    by (simp add: users_db_21) (simp add: db_21_def)
  have p1: "getUserList cfg_confirm stored_order Resolves db_21 None None (Some 1) (Some 20) =
     Inr (map selected (take 20 (users db_21)))"
    using getUserList_slices [of 1 20 stored_order None None db_21 cfg_confirm] len
    by (simp add: users_db_21)
  have "set (map selected (take 20 (users db_21))) \<inter> set [selected (list_user 21)] = {}"
    using getUserList_slices [of 1 20 stored_order None None db_21 cfg_confirm] dist p1 p2
    by (simp add: users_db_21)
  with p1 p2 len dist show ?thesis
    by (simp add: users_db_21)
qed

theorem getUserList_errors_witness:
  "page_value (Some 0) < 1 \<and>
   getUserList cfg_confirm stored_order Resolves db_21 None None (Some 0) (Some 20) = Inl InvalidParameterError \<and>
   num_value cfg_confirm (Some (- 5)) < 1 \<and>
   getUserList cfg_confirm stored_order Resolves db_21 None None None (Some (- 5)) = Inl InvalidParameterError \<and>
   1 \<le> page_value (Some 3) \<and> 1 \<le> num_value cfg_confirm None \<and>
   int (length (stored_order (orderBy_value None) (order_value None) (users db_21)))
      \<le> (page_value (Some 3) - 1) * num_value cfg_confirm None \<and>
   take (nat (num_value cfg_confirm None)) (drop (nat ((page_value (Some 3) - 1) * num_value cfg_confirm None))
      (stored_order (orderBy_value None) (order_value None) (users db_21))) = [] \<and>
   getUserList cfg_confirm stored_order Resolves db_21 None None (Some 3) None = Inl NotFoundError \<and>
   getUserList cfg_confirm stored_order Resolves db_empty None None None None = Inl NotFoundError"
proof -
  have len: "length (users db_21) = 21"
    by (simp add: db_21_def)
  have nv: "num_value cfg_confirm None = 20" "page_value (Some 3) = 3" "page_value None = 1"
    "page_value (Some 0) = 0" "num_value cfg_confirm (Some 20) = 20" "num_value cfg_confirm (Some (- 5)) = - 5"
    by (simp_all add: num_value_def page_value_def cfg_confirm_def)
  have e: "users db_empty = []"
    by (simp add: db_empty_def)
  show ?thesis
    using getUserList_errors [of "Some 0" cfg_confirm "Some 20" stored_order Resolves db_21 None None]
      getUserList_errors [of None cfg_confirm "Some (- 5)" stored_order Resolves db_21 None None]
      getUserList_errors [of "Some 3" cfg_confirm None stored_order Resolves db_21 None None]
      getUserList_errors [of None cfg_confirm None stored_order Resolves db_empty None None]
    by (simp add: users_db_21 len nv e stored_order_def order_value_def)
qed


subsection \<open>The phases of postUser\<close>

lemma db_equal_tables [simp]:
  "db_equal (d\<lparr>users := us\<rparr>) = db_equal d"
  "db_equal (d\<lparr>credentials := cs\<rparr>) = db_equal d"
  "db_equal (d\<lparr>next_uid := i\<rparr>) = db_equal d"
  "db_equal (d\<lparr>next_cid := j\<rparr>) = db_equal d"
  by (simp_all add: db_equal_def fun_eq_iff)

lemma db_equal_stored:
  "db_equal d col stored key \<Longrightarrow> stored \<noteq> Undefined \<and> stored \<noteq> Null \<and> db_equal d col stored stored"
  by (simp add: db_equal_def)

lemma set_joined:
  "set (joined d) =
     {(c, u). c \<in> set (credentials d) \<and> u \<in> set (users d) \<and> db_equal d ''id'' (uid u) (c_user c)}"
  unfolding joined_def by auto

lemma findOne_credential_Some:
  assumes "findOne_credential d i = Some (c, u)"
  shows "c \<in> set (credentials d) \<and> u \<in> set (users d) \<and>
         db_equal d ''id'' (uid u) (c_user c) \<and> db_equal d ''user'' (c_user c) i"
proof -
  from assms have "(c, u) \<in> set (joined d)" and "db_equal d ''user'' (c_user c) i"
    unfolding findOne_credential_def by (auto dest: find_Some_set)
  then show ?thesis
    by (auto simp: set_joined)
qed

lemma load_or_new_create:
  "\<not> truthy (p_id data) \<Longrightarrow>
   load_or_new cfg e d data =
     Inr (new_User\<lparr>privilege := (if truthy (need_confirmation cfg) then JNum 0 else JNum (isEnabled cfg))\<rparr>,
          new_UserCredential)"
  by (simp add: load_or_new_def new_User_def)

lemma load_or_new_update:
  assumes "truthy (p_id data)" and "load_or_new cfg e d data = Inr (user, userCredential)"
  shows "\<exists>old. findOne_credential d (p_id data) = Some (userCredential, old) \<and>
           user = old\<lparr>privilege := (if p_privilege data = Undefined then privilege old else p_privilege data)\<rparr>"
  using assms by (auto simp: load_or_new_def split: db_result.splits option.splits)

lemma postUser_persist:
  "truthy (p_email data) \<Longrightarrow> truthy (p_username data) \<Longrightarrow>
   load_or_new cfg e d data = Inr (user, userCredential) \<Longrightarrow>
   postUser cfg e d data = persist e d (patch data user) (update_password e data userCredential)"
  by (simp add: postUser_def)

lemma postUser_rejected:
  "\<not> truthy (p_email data) \<or> \<not> truthy (p_username data) \<Longrightarrow>
   postUser cfg e d data = (Inl InvalidParameterError, d)"
  by (auto simp: postUser_def)

lemma postUser_Inr:
  assumes "postUser cfg e d data = (Inr u', d')"
  shows "truthy (p_email data) \<and> truthy (p_username data) \<and>
         (\<exists>user userCredential. load_or_new cfg e d data = Inr (user, userCredential) \<and>
            persist e d (patch data user) (update_password e data userCredential) = (Inr u', d'))"
  using assms by (auto simp: postUser_def split: if_splits sum.splits)

lemma users_db_save_credential [simp]: "users (snd (db_save_credential d c)) = users d"
  by (simp add: db_save_credential_def Let_def)

lemma persist_Inr:
  assumes "persist e d user userCredential = (Inr u', d')"
  shows "save_user_result e = Resolves \<and> save_credential_result e = Resolves \<and>
         u' = fst (db_save_user (now e) d user) \<and>
         users d' = users (snd (db_save_user (now e) d user))"
  using assms
  by (auto simp: persist_def Let_def split: db_result.splits prod.splits if_splits)


lemma db_save_user_uid:
  "uid (fst (db_save_user t d u)) = (if uid u = Undefined then JNum (next_uid d) else uid u)"
  by (simp add: db_save_user_def Let_def)


lemma db_save_user_existing:
  assumes "uid u \<noteq> Undefined" and "old \<in> set (users d)" and "db_equal d ''id'' (uid old) (uid u)"
  shows "db_save_user t d u =
           (u, d\<lparr>users := map (\<lambda>r. if db_equal d ''id'' (uid r) (uid u) then u else r) (users d)\<rparr>)"
proof -
  from assms(2,3) have "\<exists>r \<in> set (users d). db_equal d ''id'' (uid r) (uid u)"
    by blast
  with assms(1) show ?thesis
    by (simp add: db_save_user_def)
qed

lemma db_save_user_new:
  assumes "uid u = Undefined"
  shows "db_save_user t d u =
           (u\<lparr>uid := JNum (next_uid d), createdAt := t\<rparr>,
            d\<lparr>users := users d @ [u\<lparr>uid := JNum (next_uid d), createdAt := t\<rparr>],
              next_uid := next_uid d + 1\<rparr>)"
  using assms by (simp add: db_save_user_def Let_def)

lemma findOne_after_remove:
  "findOne_user (db_remove_user d u) ''id'' (uid u) = None"
  by (auto simp: findOne_user_def db_remove_user_def column_def find_None_iff)


lemma persist_conflict:
  "save_user_result e = Rejects (JNum 1062) \<Longrightarrow> persist e d user userCredential = (Inl ConflictError, d)"
  by (simp add: persist_def)

lemma persist_storage_error:
  "save_user_result e = Rejects errno \<Longrightarrow> errno \<noteq> JNum 1062 \<Longrightarrow>
   persist e d user userCredential = (Inl StorageError, d)"
  by (simp add: persist_def)

lemma persist_reverted:
  "save_user_result e = Resolves \<Longrightarrow> save_credential_result e = Rejects err \<Longrightarrow>
   remove_user_result e = Resolves \<Longrightarrow>
   persist e d user userCredential =
     (Inl StorageError, db_remove_user (snd (db_save_user (now e) d user)) (fst (db_save_user (now e) d user)))"
  by (simp add: persist_def Let_def split: prod.splits)

lemma persist_not_reverted:
  "save_user_result e = Resolves \<Longrightarrow> save_credential_result e = Rejects err \<Longrightarrow>
   remove_user_result e = Rejects err' \<Longrightarrow>
   persist e d user userCredential = (Inl IrrecoverableStorageError, snd (db_save_user (now e) d user))"
  by (simp add: persist_def Let_def split: prod.splits)

subsection \<open>Creating and updating users\<close>

text \<open>
  Claim C2. When \<open>postUser\<close> has reached the save of the user and that save is rejected
  with errno 1062, the duplicate-entry error of the unique keys on email and username,
  the call fails with the conflict error (400, not the 500 of a storage failure) and
  the tables are as they were: no credential row is written. The outcome does not
  depend on what a save of the credential or a removal of the user would have done,
  for neither is attempted.
\<close>

theorem postUser_conflict:
  assumes "truthy (p_email data)" and "truthy (p_username data)"
    and "load_or_new cfg e d data = Inr (user, userCredential)"
    and "save_user_result e = Rejects (JNum 1062)"
  shows "postUser cfg e d data = (Inl ConflictError, d) \<and>
         postUser cfg (e\<lparr>save_credential_result := r, remove_user_result := r'\<rparr>) d data = (Inl ConflictError, d) \<and>
         ConflictError \<noteq> StorageError"
proof -
  let ?e = "e\<lparr>save_credential_result := r, remove_user_result := r'\<rparr>"
  have "load_or_new cfg ?e d data = load_or_new cfg e d data"
    by (simp add: load_or_new_def)
  with assms(3) have l: "load_or_new cfg ?e d data = Inr (user, userCredential)"
    by simp
  have s: "save_user_result ?e = Rejects (JNum 1062)"
    using assms(4) by simp
  have "postUser cfg e d data = (Inl ConflictError, d)"
    using assms by (simp add: postUser_persist persist_conflict)
  moreover have "postUser cfg ?e d data = (Inl ConflictError, d)"
    using assms(1,2) l s by (simp only: postUser_persist persist_conflict)
  ultimately show ?thesis by simp
qed

lemma load_signup:
  "load_or_new cfg_confirm e d payload_signup = Inr (new_User\<lparr>privilege := JNum 0\<rparr>, new_UserCredential)"
  "load_or_new cfg_confirm e d payload_taken = Inr (new_User\<lparr>privilege := JNum 0\<rparr>, new_UserCredential)"
  by (simp_all add: load_or_new_create payload_signup_def payload_taken_def cfg_confirm_def)

theorem postUser_conflict_witness:
  "truthy (p_email payload_taken) \<and> truthy (p_username payload_taken) \<and>
   load_or_new cfg_confirm env_taken db_zk payload_taken = Inr (new_User\<lparr>privilege := JNum 0\<rparr>, new_UserCredential) \<and>
   save_user_result env_taken = Rejects (JNum 1062) \<and>
   postUser cfg_confirm env_taken db_zk payload_taken = (Inl ConflictError, db_zk) \<and>
   credentials (snd (postUser cfg_confirm env_taken db_zk payload_taken)) = [cred_zk]"
proof -
  have t: "truthy (p_email payload_taken)" "truthy (p_username payload_taken)"
    by (simp_all add: payload_taken_def payload_signup_def)
  have s: "save_user_result env_taken = Rejects (JNum 1062)"
    by (simp add: env_taken_def)
  from postUser_conflict [OF t load_signup(2) s]
  have "postUser cfg_confirm env_taken db_zk payload_taken = (Inl ConflictError, db_zk)"
    by simp
  with t s show ?thesis
    by (simp add: load_signup db_zk_def)
qed






lemma patch_frame [simp]:
  "uid (patch data user) = uid user"
  "privilege (patch data user) = privilege user"
  "createdAt (patch data user) = createdAt user"
  by (simp_all add: patch_def)

lemma created_user:
  assumes "truthy (p_email data)" and "truthy (p_username data)" and "\<not> truthy (p_id data)"
  shows "\<exists>user userCredential. uid user = Undefined \<and>
           postUser cfg e d data = persist e d user userCredential"
proof -
  let ?user = "new_User\<lparr>privilege := (if truthy (need_confirmation cfg) then JNum 0 else JNum (isEnabled cfg))\<rparr>"
  have "load_or_new cfg e d data = Inr (?user, new_UserCredential)"
    using assms(3) by (rule load_or_new_create)
  with assms(1,2) have "postUser cfg e d data =
      persist e d (patch data ?user) (update_password e data new_UserCredential)"
    by (rule postUser_persist)
  moreover have "uid (patch data ?user) = Undefined"
    by (simp add: new_User_def)
  ultimately show ?thesis by blast
qed

lemma remove_inserted:
  assumes "\<forall>r \<in> set (users d). \<not> db_equal d ''id'' (uid r) (JNum k)" and "uid u = JNum k"
  shows "users (db_remove_user (d\<lparr>users := users d @ [u], next_uid := n\<rparr>) u) = users d"
proof -
  have "db_equal d ''id'' (uid u) (uid u)"
    by (simp add: db_equal_def assms(2))
  moreover have "filter (\<lambda>r. \<not> db_equal d ''id'' (uid r) (JNum k)) (users d) = users d"
    using assms(1) by (simp add: filter_id_conv)
  ultimately show ?thesis
    by (simp add: db_remove_user_def assms(2))
qed

text \<open>
  Claim C1, amended. For the creation of a user (no id in the payload) \<open>postUser\<close> is
  all-or-nothing. When the user has been saved and the save of the credential is
  rejected, the user just saved is removed again and the call fails with the storage
  error; the two tables then hold what they held before the call, and a following
  \<open>getUserInfo\<close> for the id the user had been given finds nothing: it returns
  \<open>undefined\<close> as a success value. When the removal is rejected as well, the call fails
  with the error "Reverting failed as well", different from the storage error, and the
  user stays stored without a credential. The key the table generates is above 0 and
  not in use.
\<close>

theorem postUser_compensation:
  assumes "truthy (p_email data)" and "truthy (p_username data)" and "\<not> truthy (p_id data)"
    and "save_user_result e = Resolves" and "save_credential_result e = Rejects err"
    and "next_uid d \<noteq> 0"
    and "\<forall>r \<in> set (users d). \<not> db_equal d ''id'' (uid r) (JNum (next_uid d))"
  shows "(remove_user_result e = Resolves \<longrightarrow>
            fst (postUser cfg e d data) = Inl StorageError \<and>
            users (snd (postUser cfg e d data)) = users d \<and>
            credentials (snd (postUser cfg e d data)) = credentials d \<and>
            getUserInfo Resolves (snd (postUser cfg e d data)) (JNum (next_uid d)) (Some ''id'') = Inr None) \<and>
         (remove_user_result e = Rejects err' \<longrightarrow>
            fst (postUser cfg e d data) = Inl IrrecoverableStorageError \<and>
            (\<exists>u \<in> set (users (snd (postUser cfg e d data))). uid u = JNum (next_uid d)) \<and>
            credentials (snd (postUser cfg e d data)) = credentials d) \<and>
         IrrecoverableStorageError \<noteq> StorageError"
proof (intro conjI impI)
  from created_user [OF assms(1-3)] obtain user userCredential where
    n: "uid user = Undefined" and
    p: "postUser cfg e d data = persist e d user userCredential"
    by blast
  let ?w = "user\<lparr>uid := JNum (next_uid d), createdAt := now e\<rparr>"
  let ?d1 = "d\<lparr>users := users d @ [?w], next_uid := next_uid d + 1\<rparr>"
  have s: "db_save_user (now e) d user = (?w, ?d1)"
    using n by (rule db_save_user_new)
  {
    assume "remove_user_result e = Resolves"
    with assms(4,5) have r: "postUser cfg e d data = (Inl StorageError, db_remove_user ?d1 ?w)"
      unfolding p by (simp add: persist_reverted s)
    have u: "users (db_remove_user ?d1 ?w) = users d"
      using assms(7) by (rule remove_inserted) simp
    have q: "db_equal (db_remove_user ?d1 ?w) = db_equal d"
      by (simp add: db_remove_user_def)
    show "fst (postUser cfg e d data) = Inl StorageError"
      by (simp add: r)
    show "users (snd (postUser cfg e d data)) = users d"
      by (simp add: r u)
    show "credentials (snd (postUser cfg e d data)) = credentials d"
      by (simp add: r db_remove_user_def)
    have "findOne_user (db_remove_user ?d1 ?w) ''id'' (JNum (next_uid d)) = None"
      using assms(7) by (simp add: findOne_user_None u q column_def)
    then show "getUserInfo Resolves (snd (postUser cfg e d data)) (JNum (next_uid d)) (Some ''id'') = Inr None"
      using assms(6) by (simp add: r getUserInfo_def)
  }
  {
    assume "remove_user_result e = Rejects err'"
    with assms(4,5) have r: "postUser cfg e d data = (Inl IrrecoverableStorageError, ?d1)"
      unfolding p by (simp add: persist_not_reverted s)
    show "fst (postUser cfg e d data) = Inl IrrecoverableStorageError"
      by (simp add: r)
    show "\<exists>u \<in> set (users (snd (postUser cfg e d data))). uid u = JNum (next_uid d)"
      by (simp add: r)
    show "credentials (snd (postUser cfg e d data)) = credentials d"
      by (simp add: r)
  }
  show "IrrecoverableStorageError \<noteq> StorageError"
    by simp
qed

lemma signup_facts:
  "truthy (p_email payload_signup)" "truthy (p_username payload_signup)"
  "\<not> truthy (p_id payload_signup)" "next_uid db_empty \<noteq> 0" "users db_empty = []"
  "credentials db_empty = []"
  by (simp_all add: payload_signup_def db_empty_def)

lemma env_credential_fails_fields:
  "save_user_result env_credential_fails = Resolves"
  "save_credential_result env_credential_fails = Rejects Undefined"
  "remove_user_result env_credential_fails = Resolves"
  by (simp_all add: env_credential_fails_def env_ok_def)

lemma env_revert_fails_fields:
  "save_user_result env_revert_fails = Resolves"
  "save_credential_result env_revert_fails = Rejects Undefined"
  "remove_user_result env_revert_fails = Rejects Undefined"
  by (simp_all add: env_revert_fails_def env_ok_def)

theorem postUser_compensation_witness:
  "truthy (p_email payload_signup) \<and> truthy (p_username payload_signup) \<and>
   \<not> truthy (p_id payload_signup) \<and>
   save_user_result env_credential_fails = Resolves \<and>
   save_credential_result env_credential_fails = Rejects Undefined \<and>
   remove_user_result env_credential_fails = Resolves \<and>
   next_uid db_empty \<noteq> 0 \<and> users db_empty = [] \<and> credentials db_empty = [] \<and>
   fst (postUser cfg_confirm env_credential_fails db_empty payload_signup) = Inl StorageError \<and>
   users (snd (postUser cfg_confirm env_credential_fails db_empty payload_signup)) = [] \<and>
   credentials (snd (postUser cfg_confirm env_credential_fails db_empty payload_signup)) = [] \<and>
   getUserInfo Resolves (snd (postUser cfg_confirm env_credential_fails db_empty payload_signup))
     (JNum 1) (Some ''id'') = Inr None \<and>
   remove_user_result env_revert_fails = Rejects Undefined \<and>
   fst (postUser cfg_confirm env_revert_fails db_empty payload_signup) = Inl IrrecoverableStorageError \<and>
   users (snd (postUser cfg_confirm env_revert_fails db_empty payload_signup)) = [user_amy] \<and>
   uid user_amy = JNum 1 \<and>
   credentials (snd (postUser cfg_confirm env_revert_fails db_empty payload_signup)) = [] \<and>
   users db_zk = [user_zk] \<and> next_uid db_zk = 2 \<and>
   \<not> db_equal db_zk ''id'' (uid user_zk) (JNum 2) \<and>
   fst (postUser cfg_confirm env_credential_fails db_zk payload_signup) = Inl StorageError \<and>
   users (snd (postUser cfg_confirm env_credential_fails db_zk payload_signup)) = [user_zk] \<and>
   credentials (snd (postUser cfg_confirm env_credential_fails db_zk payload_signup)) = [cred_zk] \<and>
   getUserInfo Resolves (snd (postUser cfg_confirm env_credential_fails db_zk payload_signup))
     (JNum 2) (Some ''id'') = Inr None"
proof -
  have f: "\<forall>r \<in> set (users db_empty). \<not> db_equal db_empty ''id'' (uid r) (JNum (next_uid db_empty))"
    by (simp add: db_empty_def)
  have n: "next_uid db_empty = 1"
    by (simp add: db_empty_def)
  note a = postUser_compensation [OF signup_facts(1-3) env_credential_fails_fields(1,2)
      signup_facts(4) f, where err' = Undefined and cfg = cfg_confirm]
  note b = postUser_compensation [OF signup_facts(1-3) env_revert_fails_fields(1,2)
      signup_facts(4) f, where err' = Undefined and cfg = cfg_confirm]
  have z: "users db_zk = [user_zk]" "next_uid db_zk = 2" "credentials db_zk = [cred_zk]"
    "\<not> db_equal db_zk ''id'' (uid user_zk) (JNum 2)"
    by (simp_all add: db_zk_def db_equal_def user_zk_def sample_converts_def)
  then have g: "\<forall>r \<in> set (users db_zk). \<not> db_equal db_zk ''id'' (uid r) (JNum (next_uid db_zk))"
    and m: "next_uid db_zk \<noteq> 0"
    by simp_all
  note c = postUser_compensation [OF signup_facts(1-3) env_credential_fails_fields(1,2) m g,
      where err' = Undefined and cfg = cfg_confirm]
  have "users (snd (postUser cfg_confirm env_revert_fails db_empty payload_signup)) = [user_amy]"
    "uid user_amy = JNum 1"
    by code_simp+
  with a b c show ?thesis
    by (simp add: signup_facts env_credential_fails_fields env_revert_fails_fields n z)
qed

text \<open>
  Claim C1, as stated. First, after the revert a following lookup of the id is said
  to fail with the not-found error: signing up on empty tables with a credential save
  that is rejected gives the storage error, and the lookup of id 1 afterwards does
  not fail, it resolves with \<open>undefined\<close>. Second, the call is said to be
  all-or-nothing, with no restriction to new users: an update of the stored user 1
  whose credential save is rejected leaves the user table empty, so the user that
  existed before the call is gone.
\<close>

theorem postUser_compensation_counterexample:
  "fst (postUser cfg_confirm env_credential_fails db_empty payload_signup) = Inl StorageError \<and>
   getUserInfo Resolves (snd (postUser cfg_confirm env_credential_fails db_empty payload_signup))
     (JNum 1) (Some ''id'') = Inr None \<and>
   users db_zk = [user_zk] \<and>
   fst (postUser cfg_confirm env_credential_fails db_zk payload_edit) = Inl StorageError \<and>
   users (snd (postUser cfg_confirm env_credential_fails db_zk payload_edit)) = []"
  by code_simp

lemma update_of_existing:
  assumes "truthy (p_id data)" and "findOne_credential d (p_id data) = Some (c, old)"
    and "postUser cfg e d data = (Inr u, d')"
  shows "u = patch data (old\<lparr>privilege := (if p_privilege data = Undefined then privilege old else p_privilege data)\<rparr>) \<and>
         users d' = map (\<lambda>r. if db_equal d ''id'' (uid r) (uid old) then u else r) (users d)"
proof -
  let ?user = "old\<lparr>privilege := (if p_privilege data = Undefined then privilege old else p_privilege data)\<rparr>"
  from postUser_Inr [OF assms(3)] obtain user userCredential where
    l: "load_or_new cfg e d data = Inr (user, userCredential)" and
    p: "persist e d (patch data user) (update_password e data userCredential) = (Inr u, d')"
    by blast
  from load_or_new_update [OF assms(1) l] assms(2) have user: "user = ?user"
    by simp
  from findOne_credential_Some [OF assms(2)] have
    old: "old \<in> set (users d)" and i: "db_equal d ''id'' (uid old) (c_user c)"
    by simp_all
  from db_equal_stored [OF i] have "uid (patch data ?user) \<noteq> Undefined"
    and "db_equal d ''id'' (uid old) (uid (patch data ?user))"
    by simp_all
  with old have s: "db_save_user (now e) d (patch data ?user) =
      (patch data ?user,
       d\<lparr>users := map (\<lambda>r. if db_equal d ''id'' (uid r) (uid (patch data ?user)) then patch data ?user else r)
         (users d)\<rparr>)"
    by (intro db_save_user_existing)
  from persist_Inr [OF p] show ?thesis
    unfolding user s by simp
qed

lemma replaced_rows:
  assumes "old \<in> set xs" and "uid u = uid old" and "db_equal d ''id'' (uid old) (uid old)"
  shows "u \<in> set (map (\<lambda>r. if db_equal d ''id'' (uid r) (uid old) then u else r) xs) \<and>
         (\<forall>r \<in> set (map (\<lambda>r. if db_equal d ''id'' (uid r) (uid old) then u else r) xs).
            uid r = uid old \<longrightarrow> r = u)"
  using assms by (auto simp: image_iff)

lemma updated_row:
  assumes "truthy (p_id data)" and "findOne_credential d (p_id data) = Some (c, old)"
    and "postUser cfg e d data = (Inr u, d')"
  shows "uid u = uid old \<and> u \<in> set (users d') \<and> (\<forall>r \<in> set (users d'). uid r = uid old \<longrightarrow> r = u)"
proof -
  from update_of_existing [OF assms] have
    u: "u = patch data (old\<lparr>privilege := (if p_privilege data = Undefined then privilege old else p_privilege data)\<rparr>)" and
    d': "users d' = map (\<lambda>r. if db_equal d ''id'' (uid r) (uid old) then u else r) (users d)"
    by simp_all
  from findOne_credential_Some [OF assms(2)] have
    old: "old \<in> set (users d)" and "db_equal d ''id'' (uid old) (c_user c)"
    by simp_all
  then have r: "db_equal d ''id'' (uid old) (uid old)"
    by (simp add: db_equal_stored)
  have i: "uid u = uid old"
    by (simp add: u)
  from replaced_rows [OF old i r] have "u \<in> set (users d')"
    and "\<forall>r \<in> set (users d'). uid r = uid old \<longrightarrow> r = u"
    unfolding d' by blast+
  with i show ?thesis by blast
qed

text \<open>
  Claim C6, as stated: a profile update cannot change the privilege unless an
  authorization decision permits it. \<open>postUser\<close> takes the payload and nothing about the
  caller, and evaluates no such decision: an update of user 1, stored with privilege 1,
  whose payload carries privilege 2 succeeds and stores privilege 2.
\<close>

theorem postUser_privilege_update_counterexample:
  "privilege user_zk = JNum 1 \<and> users db_zk = [user_zk] \<and>
   fst (postUser cfg_confirm env_ok db_zk payload_edit) = Inr (user_zk\<lparr>motto := JStr ''changed'', description := Null, privilege := JNum 2\<rparr>) \<and>
   map privilege (users (snd (postUser cfg_confirm env_ok db_zk payload_edit))) = [JNum 2]"
  by code_simp

text \<open>
  Claim C6, amended. \<open>postUser\<close> consults no authorization decision. A successful call
  with the id of an existing user sets that user's privilege to the payload's privilege
  whenever the payload carries one, and leaves it as stored exactly when the payload's
  privilege is \<open>undefined\<close>; the row stored under the id carries the result.
\<close>

theorem postUser_privilege_update:
  assumes "truthy (p_id data)" and "findOne_credential d (p_id data) = Some (c, old)"
    and "postUser cfg e d data = (Inr u, d')"
  shows "privilege u = (if p_privilege data = Undefined then privilege old else p_privilege data) \<and>
         u \<in> set (users d') \<and>
         (\<forall>r \<in> set (users d'). uid r = uid old \<longrightarrow> privilege r = privilege u)"
proof -
  from update_of_existing [OF assms] have
    u: "u = patch data (old\<lparr>privilege := (if p_privilege data = Undefined then privilege old else p_privilege data)\<rparr>)"
    by simp
  from updated_row [OF assms] have "u \<in> set (users d')"
    and "\<forall>r \<in> set (users d'). uid r = uid old \<longrightarrow> r = u"
    by simp_all
  moreover have "privilege u = (if p_privilege data = Undefined then privilege old else p_privilege data)"
    by (simp add: u)
  ultimately show ?thesis by auto
qed

lemma postUser_edit:
  "postUser cfg_confirm env_ok db_zk payload_edit = (Inr user_zk_edited, db_zk\<lparr>users := [user_zk_edited]\<rparr>)"
  by (simp add: postUser_def load_or_new_def findOne_credential_def joined_def db_equal_def
      patch_def update_password_def persist_def db_save_user_def db_save_credential_def
      env_ok_def db_zk_def user_zk_def cred_zk_def payload_edit_def user_zk_edited_def Let_def)

lemma edit_facts:
  "truthy (p_id payload_edit)"
  "findOne_credential db_zk (p_id payload_edit) = Some (cred_zk, user_zk)"
  by code_simp+

theorem postUser_privilege_update_witness:
  "truthy (p_id payload_edit) \<and>
   findOne_credential db_zk (p_id payload_edit) = Some (cred_zk, user_zk) \<and>
   postUser cfg_confirm env_ok db_zk payload_edit = (Inr user_zk_edited, db_zk\<lparr>users := [user_zk_edited]\<rparr>) \<and>
   p_privilege payload_edit = JNum 2 \<and> privilege user_zk = JNum 1 \<and>
   privilege user_zk_edited = JNum 2 \<and>
   user_zk_edited \<in> set (users (db_zk\<lparr>users := [user_zk_edited]\<rparr>))"
proof -
  have "p_privilege payload_edit = JNum 2" "privilege user_zk = JNum 1"
    by code_simp+
  with postUser_privilege_update [OF edit_facts postUser_edit] show ?thesis
    by (simp add: edit_facts postUser_edit)
qed

text \<open>
  Claim C9, as stated: on every update each field present in the payload is set. An
  update of the stored user 1 whose payload carries a new motto but no email is turned
  down by the guard of line 125: the call fails with the invalid-parameter error and
  the stored motto stays what it was.
\<close>

theorem postUser_patch_counterexample:
  "truthy (p_id payload_edit_without_email) \<and>
   p_email payload_edit_without_email = Undefined \<and>
   p_motto payload_edit_without_email = JStr ''changed'' \<and>
   map motto (users db_zk) = [JStr ''hello''] \<and>
   fst (postUser cfg_confirm env_ok db_zk payload_edit_without_email) = Inl InvalidParameterError \<and>
   map motto (users (snd (postUser cfg_confirm env_ok db_zk payload_edit_without_email))) = [JStr ''hello'']"
  by code_simp

text \<open>
  Claim C9, amended. In a successful \<open>postUser\<close> call with the id of an existing user
  the payload carries an email and a username, and both are set to the payload's
  values; each of nickname, sex, motto and description stays as stored when the
  payload's field is \<open>undefined\<close> and is set to the payload's value otherwise; id and
  creation time stay, and the row stored under the id is the returned user. A payload
  whose email or username is absent (or falsy) is turned down as a whole with the
  invalid-parameter error: the tables stay as they were and none of its fields is set.
\<close>

theorem postUser_patch:
  "(truthy (p_id data) \<and> findOne_credential d (p_id data) = Some (c, old) \<and>
    postUser cfg e d data = (Inr u, d') \<longrightarrow>
      p_email data \<noteq> Undefined \<and> email u = p_email data \<and>
      p_username data \<noteq> Undefined \<and> username u = p_username data \<and>
      nickname u = (if p_nickname data = Undefined then nickname old else p_nickname data) \<and>
      sex u = (if p_sex data = Undefined then sex old else p_sex data) \<and>
      motto u = (if p_motto data = Undefined then motto old else p_motto data) \<and>
      description u = (if p_description data = Undefined then description old else p_description data) \<and>
      uid u = uid old \<and> createdAt u = createdAt old \<and>
      u \<in> set (users d') \<and> (\<forall>r \<in> set (users d'). uid r = uid old \<longrightarrow> r = u)) \<and>
   (\<not> truthy (p_email data) \<or> \<not> truthy (p_username data) \<longrightarrow>
      postUser cfg e d data = (Inl InvalidParameterError, d))"
proof (intro conjI impI)
  assume "\<not> truthy (p_email data) \<or> \<not> truthy (p_username data)"
  then show "postUser cfg e d data = (Inl InvalidParameterError, d)"
    by (rule postUser_rejected)
next
  assume a: "truthy (p_id data) \<and> findOne_credential d (p_id data) = Some (c, old) \<and>
    postUser cfg e d data = (Inr u, d')"
  from a update_of_existing [of data d c old cfg e u d'] have
    u: "u = patch data (old\<lparr>privilege := (if p_privilege data = Undefined then privilege old else p_privilege data)\<rparr>)"
    by simp
  from a postUser_Inr [of cfg e d data u d'] have t: "truthy (p_email data)" "truthy (p_username data)"
    by simp_all
  then show p: "p_email data \<noteq> Undefined" "p_username data \<noteq> Undefined"
    by auto
  show "email u = p_email data" "username u = p_username data"
    using p by (simp_all add: u patch_def)
  show "nickname u = (if p_nickname data = Undefined then nickname old else p_nickname data)"
    "sex u = (if p_sex data = Undefined then sex old else p_sex data)"
    "motto u = (if p_motto data = Undefined then motto old else p_motto data)"
    "description u = (if p_description data = Undefined then description old else p_description data)"
    "createdAt u = createdAt old"
    by (simp_all add: u patch_def)
  from a updated_row [of data d c old cfg e u d']
  show "uid u = uid old" "u \<in> set (users d')" "\<forall>r \<in> set (users d'). uid r = uid old \<longrightarrow> r = u"
    by simp_all
qed

theorem postUser_patch_witness:
  "truthy (p_id payload_edit) \<and>
   findOne_credential db_zk (p_id payload_edit) = Some (cred_zk, user_zk) \<and>
   postUser cfg_confirm env_ok db_zk payload_edit = (Inr user_zk_edited, db_zk\<lparr>users := [user_zk_edited]\<rparr>) \<and>
   p_nickname payload_edit = Undefined \<and> nickname user_zk_edited = nickname user_zk \<and>
   p_sex payload_edit = Undefined \<and> sex user_zk_edited = sex user_zk \<and>
   motto user_zk_edited = p_motto payload_edit \<and>
   description user_zk_edited = p_description payload_edit \<and>
   email user_zk_edited = p_email payload_edit \<and>
   username user_zk_edited = p_username payload_edit \<and>
   \<not> truthy (p_email payload_edit_without_email) \<and>
   postUser cfg_confirm env_ok db_zk payload_edit_without_email = (Inl InvalidParameterError, db_zk)"
proof -
  have f: "p_nickname payload_edit = Undefined" "p_sex payload_edit = Undefined"
    "p_motto payload_edit \<noteq> Undefined" "p_description payload_edit \<noteq> Undefined"
    "p_email payload_edit \<noteq> Undefined" "p_username payload_edit \<noteq> Undefined"
    by code_simp+
  have n: "\<not> truthy (p_email payload_edit_without_email)"
    by (simp add: payload_edit_without_email_def)
  from postUser_patch [of payload_edit db_zk cred_zk user_zk cfg_confirm env_ok user_zk_edited
      "db_zk\<lparr>users := [user_zk_edited]\<rparr>"]
    postUser_patch [of payload_edit_without_email db_zk cred_zk user_zk cfg_confirm env_ok
      user_zk_edited db_zk]
  show ?thesis
    using f n by (simp add: edit_facts postUser_edit)
qed

text \<open>
  Claim C7, on the code. The claim asks that a failed password update fails the whole
  call. \<open>postUser\<close> calls \<open>updatePassword\<close> without awaiting it, so the error thrown in
  its \<open>.catch\<close> handler reaches nobody: signing up with a password whose update is
  rejected succeeds, and the credential is stored without a password hash.
\<close>

theorem postUser_password_failure_lost:
  "truthy (p_password payload_signup) \<and>
   updatePassword env_password_rejected new_UserCredential (p_password payload_signup) = None \<and>
   postUser cfg_confirm env_password_rejected db_empty payload_signup =
     (Inr user_amy,
      \<lparr>users = [user_amy],
       credentials = [\<lparr>cid = JNum 1, password = Undefined, c_user = JNum 1\<rparr>],
       next_uid = 2, next_cid = 2, converts = sample_converts\<rparr>)"
  by (simp add: postUser_def load_or_new_def patch_def update_password_def persist_def db_save_user_def
      db_save_credential_def env_password_rejected_def env_ok_def db_empty_def payload_signup_def
      new_User_def cfg_confirm_def new_UserCredential_def user_amy_def Let_def)

end
